theory Spec2Isabelle
  imports Complex_Main "HOL-Library.Word"
begin

section \<open>Go values used by the exporter\<close>

text \<open>
  The exporter is written in Go. Its \<open>float64\<close> quantities and amounts come from JSON
  numbers, so they are finite; they are modelled by exact rationals. Every concrete value
  the statements below evaluate (10, 8, 2, 3/2, 1073741824 / 2^30) is a binary fraction
  that \<open>float64\<close> represents exactly; on longer sums the model does not round.
  Go's \<open>int\<close> is the 64-bit signed integer: a \<open>64 word\<close>, read by \<open>sint\<close>.
\<close>

type_synonym float64 = rat

text \<open>
  \<open>int(f)\<close> on a \<open>float64\<close>: the fraction is discarded (truncation towards zero). The
  result is reduced to 64 bits; Go leaves the result open when the truncated value does
  not fit, and inside the range the word is that value.
\<close>

definition truncToZero :: "float64 \<Rightarrow> int" where
  "truncToZero f = (if 0 \<le> f then \<lfloor>f\<rfloor> else \<lceil>f\<rceil>)"

definition goInt :: "float64 \<Rightarrow> 64 word" where
  "goInt f = word_of_int (truncToZero f)"

text \<open>\<open>float64(n)\<close> on an \<open>int\<close>.\<close>

definition goFloat64 :: "64 word \<Rightarrow> float64" where
  "goFloat64 n = of_int (sint n)"

subsection \<open>package strings\<close>

text \<open>
  Strings are byte strings. \<open>strings.ToLower\<close> is modelled on ASCII text, where it maps
  \<open>A\<close>..\<open>Z\<close> to \<open>a\<close>..\<open>z\<close> and keeps every other byte.
\<close>

definition toLowerByte :: "char \<Rightarrow> char" where
  "toLowerByte c =
     (case map_of (zip ''ABCDEFGHIJKLMNOPQRSTUVWXYZ'' ''abcdefghijklmnopqrstuvwxyz'') c of
        Some d \<Rightarrow> d
      | None \<Rightarrow> c)"

definition ToLower :: "string \<Rightarrow> string" where
  "ToLower s = map toLowerByte s"

fun HasPrefix :: "string \<Rightarrow> string \<Rightarrow> bool" where
  "HasPrefix s [] = True"
| "HasPrefix [] (p # ps) = False"
| "HasPrefix (c # cs) (p # ps) = (c = p \<and> HasPrefix cs ps)"

fun Contains :: "string \<Rightarrow> string \<Rightarrow> bool" where
  "Contains [] substr = (substr = [])"
| "Contains (c # cs) substr = (HasPrefix (c # cs) substr \<or> Contains cs substr)"

section \<open>The legacy billing structures (pkg/exporter/billing.go)\<close>

record UsageItem =
  Date :: string
  Product :: string
  SKU :: string
  Quantity :: float64
  UnitType :: string
  PricePerUnit :: float64
  GrossAmount :: float64
  DiscountAmount :: float64
  NetAmount :: float64
  OrganizationName :: string
  RepositoryName :: string

text \<open>
  \<open>MinutesUsedBreakdown\<close> is a Go \<open>map[string]int\<close>. It is kept as an association list
  with one entry per key, in order of first insertion, because \<open>Collect\<close> ranges over it;
  Go fixes no order for that range.
\<close>

record actionBilling =
  abType :: string
  abName :: string
  TotalMinutesUsed :: float64
  TotalPaidMinutesUsed :: float64
  IncludedMinutes :: float64
  MinutesUsedBreakdown :: "(string \<times> 64 word) list"

record packageBilling =
  pbType :: string
  pbName :: string
  TotalGigabytesBandwidthUsed :: float64
  TotalPaidGigabytesBandwidthUsed :: float64
  IncludedGigabytesBandwidth :: float64

record storageBilling =
  sbType :: string
  sbName :: string
  DaysLeftInBillingCycle :: "64 word"
  EstimatedPaidStorageForMonth :: float64
  EstimatedStorageForMonth :: float64

text \<open>\<open>m[k]\<close> on a map of ints: the zero value when the key is absent.\<close>

definition mapGet :: "(string \<times> 64 word) list \<Rightarrow> string \<Rightarrow> 64 word" where
  "mapGet m k = (case map_of m k of None \<Rightarrow> 0 | Some v \<Rightarrow> v)"

fun mapSet :: "(string \<times> 64 word) list \<Rightarrow> string \<Rightarrow> 64 word \<Rightarrow> (string \<times> 64 word) list" where
  "mapSet [] k v = [(k, v)]"
| "mapSet ((k', v') # m) k v = (if k' = k then (k, v) # m else (k', v') # mapSet m k v)"

subsection \<open>extractOSFromSKU\<close>

definition extractOSFromSKU :: "string \<Rightarrow> string" where
  "extractOSFromSKU sku =
     (let skuLower = ToLower sku in
      if Contains skuLower ''linux'' then ''UBUNTU''
      else if Contains skuLower ''windows'' then ''WINDOWS''
      else if Contains skuLower ''macos'' \<or> Contains skuLower ''mac'' then ''MACOS''
      else '''')"

subsection \<open>parseUsageResponse\<close>

text \<open>The three branches of the \<open>switch\<close> on the lower-cased product, one usage item each.\<close>

definition parseActions :: "UsageItem \<Rightarrow> actionBilling \<Rightarrow> actionBilling" where
  "parseActions item actionBill =
     (if ToLower (UnitType item) = ''minutes'' then
        (let bill = actionBill
               \<lparr> TotalMinutesUsed := TotalMinutesUsed actionBill + Quantity item,
                 TotalPaidMinutesUsed := TotalPaidMinutesUsed actionBill + NetAmount item,
                 IncludedMinutes := IncludedMinutes actionBill + DiscountAmount item \<rparr>;
             os = extractOSFromSKU (SKU item)
         in if os \<noteq> '''' then
              bill \<lparr> MinutesUsedBreakdown :=
                       mapSet (MinutesUsedBreakdown bill) os
                         (mapGet (MinutesUsedBreakdown bill) os + goInt (Quantity item)) \<rparr>
            else bill)
      else actionBill)"

definition parsePackages :: "UsageItem \<Rightarrow> packageBilling \<Rightarrow> packageBilling" where
  "parsePackages item packageBill =
     (let unitType = ToLower (UnitType item) in
      if unitType = ''bytes'' \<or> unitType = ''gigabytes'' then
        (let quantity = (if unitType = ''bytes'' then Quantity item / (1024 * 1024 * 1024)
                         else Quantity item)
         in packageBill
              \<lparr> TotalGigabytesBandwidthUsed := TotalGigabytesBandwidthUsed packageBill + quantity,
                TotalPaidGigabytesBandwidthUsed :=
                  TotalPaidGigabytesBandwidthUsed packageBill + NetAmount item,
                IncludedGigabytesBandwidth :=
                  IncludedGigabytesBandwidth packageBill + DiscountAmount item \<rparr>)
      else packageBill)"

definition parseStorage :: "UsageItem \<Rightarrow> storageBilling \<Rightarrow> storageBilling" where
  "parseStorage item storageBill =
     (let unitType = ToLower (UnitType item) in
      if unitType = ''bytes'' \<or> unitType = ''gigabytes'' \<or> unitType = ''gigabytehours'' then
        (let quantity = (if unitType = ''bytes'' then Quantity item / (1024 * 1024 * 1024)
                         else Quantity item)
         in storageBill
              \<lparr> EstimatedStorageForMonth := EstimatedStorageForMonth storageBill + quantity,
                EstimatedPaidStorageForMonth :=
                  EstimatedPaidStorageForMonth storageBill + NetAmount item \<rparr>)
      else storageBill)"

text \<open>One iteration of the loop over \<open>response.UsageItems\<close>.\<close>

definition parseItem ::
  "actionBilling \<times> packageBilling \<times> storageBilling \<Rightarrow> UsageItem
     \<Rightarrow> actionBilling \<times> packageBilling \<times> storageBilling" where
  "parseItem bills item =
     (case bills of (actionBill, packageBill, storageBill) \<Rightarrow>
        (let product = ToLower (Product item) in
         if product = ''actions'' then (parseActions item actionBill, packageBill, storageBill)
         else if product = ''packages'' then (actionBill, parsePackages item packageBill, storageBill)
         else if product = ''git_lfs'' then (actionBill, packageBill, parseStorage item storageBill)
         else (actionBill, packageBill, storageBill)))"

text \<open>
  The response is a pointer: \<open>None\<close> is \<open>nil\<close>. A \<open>nil\<close> response and an empty item list
  return the three fresh structures.
\<close>

definition parseUsageResponse ::
  "UsageItem list option \<Rightarrow> string \<Rightarrow> string
     \<Rightarrow> actionBilling \<times> packageBilling \<times> storageBilling" where
  "parseUsageResponse response billingType name =
     (let actionBill = \<lparr> abType = billingType, abName = name, TotalMinutesUsed = 0,
                          TotalPaidMinutesUsed = 0, IncludedMinutes = 0,
                          MinutesUsedBreakdown = [] \<rparr>;
          packageBill = \<lparr> pbType = billingType, pbName = name,
                           TotalGigabytesBandwidthUsed = 0,
                           TotalPaidGigabytesBandwidthUsed = 0,
                           IncludedGigabytesBandwidth = 0 \<rparr>;
          storageBill = \<lparr> sbType = billingType, sbName = name, DaysLeftInBillingCycle = 0,
                           EstimatedPaidStorageForMonth = 0, EstimatedStorageForMonth = 0 \<rparr>
      in case response of
           None \<Rightarrow> (actionBill, packageBill, storageBill)
         | Some usageItems \<Rightarrow>
             if length usageItems = 0 then (actionBill, packageBill, storageBill)
             else foldl parseItem (actionBill, packageBill, storageBill) usageItems)"

section \<open>What a collector writes to\<close>

text \<open>An error value of the API client: its message.\<close>

datatype error = Error string

text \<open>
  \<open>prometheus.MustNewConstMetric(desc, GaugeValue, v, labels...)\<close>: the descriptor (by its
  metric name), the gauge value and the label values. Every call in the exporter passes as
  many label values as its descriptor has label names, so the call does not panic on the
  label count.
\<close>

record Metric =
  fqName :: string
  gauge :: float64
  labelValues :: "string list"

definition MustNewConstMetric :: "string \<Rightarrow> float64 \<Rightarrow> string list \<Rightarrow> Metric" where
  "MustNewConstMetric name v labels = \<lparr> fqName = name, gauge = v, labelValues = labels \<rparr>"

text \<open>
  The state one \<open>Collect\<close> call changes: the metrics sent on the channel \<open>ch\<close> (oldest
  first), the labels of the increments of the failure counter vector (oldest first; the
  counter under a label has gone up by the number of times the label occurs), the labels
  of the duration observations (the observed seconds are wall-clock time and are left
  out), and the log lines as level and message.
\<close>

record state =
  ch :: "Metric list"
  failures :: "string list"
  duration :: "string list"
  logger :: "(string \<times> string) list"

definition send :: "Metric \<Rightarrow> state \<Rightarrow> state" where
  "send m w = w \<lparr> ch := ch w @ [m] \<rparr>"

definition failuresInc :: "string \<Rightarrow> state \<Rightarrow> state" where
  "failuresInc label w = w \<lparr> failures := failures w @ [label] \<rparr>"

definition durationObserve :: "string \<Rightarrow> state \<Rightarrow> state" where
  "durationObserve label w = w \<lparr> duration := duration w @ [label] \<rparr>"

definition logError :: "string \<Rightarrow> state \<Rightarrow> state" where
  "logError msg w = w \<lparr> logger := logger w @ [(''error'', msg)] \<rparr>"

definition logDebug :: "string \<Rightarrow> state \<Rightarrow> state" where
  "logDebug msg w = w \<lparr> logger := logger w @ [(''debug'', msg)] \<rparr>"

text \<open>
  The configured targets (\<open>config.Target\<close>, declared outside the files at hand): the
  repository patterns, the enterprise names and the organization names.
\<close>

record Target =
  Repos :: "string list"
  Enterprises :: "string list"
  Orgs :: "string list"

text \<open>
  The API client as the billing collectors use it: \<open>NewRequest("GET", endpoint, nil)\<close>
  gives a request (kept as its endpoint) or an error, and \<open>Do\<close> decodes the response into
  usage items or gives an error. One \<open>Collect\<close> call sees the upstream as a function of
  the endpoint.
\<close>

record 'item client =
  NewRequest :: "string \<Rightarrow> error + string"
  Do :: "string \<Rightarrow> error + 'item list"

section \<open>The legacy billing collector (pkg/exporter/billing.go)\<close>

text \<open>
  Modelled from the spec: \<open>alreadyCollected\<close> is called by \<open>Collect\<close> and declared
  outside the files at hand. The spec calls it the linear scan of the list of collected
  keys: first occurrence wins, later occurrences with an identical key are dropped.
\<close>

definition alreadyCollected :: "string list \<Rightarrow> string \<Rightarrow> bool" where
  "alreadyCollected collected needle = (needle \<in> set collected)"

text \<open>
  The body the six fetch loops share: prepare the request, send it, and on either error
  log it, increment the failure counter under \<open>label\<close> and give no record
  (\<open>continue\<close>). Each caller passes the label and the messages its source text has.
\<close>

definition fetchUsage ::
  "UsageItem client \<Rightarrow> string \<Rightarrow> string \<Rightarrow> string \<Rightarrow> string \<Rightarrow> state
     \<Rightarrow> UsageItem list option \<times> state" where
  "fetchUsage c label prepareMsg fetchMsg endpoint w =
     (case NewRequest c endpoint of
        Inl err \<Rightarrow> (None, failuresInc label (logError prepareMsg w))
      | Inr req \<Rightarrow>
          (case Do c req of
             Inl err \<Rightarrow> (None, failuresInc label (logError fetchMsg w))
           | Inr usageItems \<Rightarrow> (Some usageItems, w)))"

definition enterpriseEndpoint :: "string \<Rightarrow> string" where
  "enterpriseEndpoint name = ''/enterprises/'' @ name @ ''/settings/billing/usage''"

definition organizationEndpoint :: "string \<Rightarrow> string" where
  "organizationEndpoint name = ''/organizations/'' @ name @ ''/settings/billing/usage''"

subsection \<open>getActionBilling\<close>

definition actionBillingFor ::
  "UsageItem client \<Rightarrow> string \<Rightarrow> (string \<Rightarrow> string) \<Rightarrow> actionBilling list \<times> state \<Rightarrow> string
     \<Rightarrow> actionBilling list \<times> state" where
  "actionBillingFor c entityType endpoint acc name =
     (case acc of (result, w) \<Rightarrow>
        (case fetchUsage c ''action'' ''Failed to prepare action request''
                ''Failed to fetch action billing'' (endpoint name) w of
           (None, w') \<Rightarrow> (result, w')
         | (Some record, w') \<Rightarrow>
             (result @ [fst (parseUsageResponse (Some record) entityType name)], w')))"

definition getActionBilling ::
  "UsageItem client \<Rightarrow> Target \<Rightarrow> state \<Rightarrow> actionBilling list \<times> state" where
  "getActionBilling c cfg w =
     foldl (actionBillingFor c ''org'' organizationEndpoint)
       (foldl (actionBillingFor c ''enterprise'' enterpriseEndpoint) ([], w) (Enterprises cfg))
       (Orgs cfg)"

subsection \<open>getPackageBilling\<close>

definition packageBillingFor ::
  "UsageItem client \<Rightarrow> string \<Rightarrow> (string \<Rightarrow> string) \<Rightarrow> packageBilling list \<times> state \<Rightarrow> string
     \<Rightarrow> packageBilling list \<times> state" where
  "packageBillingFor c entityType endpoint acc name =
     (case acc of (result, w) \<Rightarrow>
        (case fetchUsage c ''action'' ''Failed to prepare package request''
                ''Failed to fetch package billing'' (endpoint name) w of
           (None, w') \<Rightarrow> (result, w')
         | (Some record, w') \<Rightarrow>
             (result @ [fst (snd (parseUsageResponse (Some record) entityType name))], w')))"

definition getPackageBilling ::
  "UsageItem client \<Rightarrow> Target \<Rightarrow> state \<Rightarrow> packageBilling list \<times> state" where
  "getPackageBilling c cfg w =
     foldl (packageBillingFor c ''org'' organizationEndpoint)
       (foldl (packageBillingFor c ''enterprise'' enterpriseEndpoint) ([], w) (Enterprises cfg))
       (Orgs cfg)"

subsection \<open>getStorageBilling\<close>

definition storageBillingFor ::
  "UsageItem client \<Rightarrow> string \<Rightarrow> (string \<Rightarrow> string) \<Rightarrow> storageBilling list \<times> state \<Rightarrow> string
     \<Rightarrow> storageBilling list \<times> state" where
  "storageBillingFor c entityType endpoint acc name =
     (case acc of (result, w) \<Rightarrow>
        (case fetchUsage c ''action'' ''Failed to prepare storage request''
                ''Failed to fetch storage billing'' (endpoint name) w of
           (None, w') \<Rightarrow> (result, w')
         | (Some record, w') \<Rightarrow>
             (result @ [snd (snd (parseUsageResponse (Some record) entityType name))], w')))"

definition getStorageBilling ::
  "UsageItem client \<Rightarrow> Target \<Rightarrow> state \<Rightarrow> storageBilling list \<times> state" where
  "getStorageBilling c cfg w =
     foldl (storageBillingFor c ''org'' organizationEndpoint)
       (foldl (storageBillingFor c ''enterprise'' enterpriseEndpoint) ([], w) (Enterprises cfg))
       (Orgs cfg)"

subsection \<open>Collect\<close>

text \<open>One iteration of each of the three loops over the fetched records.\<close>

definition collectAction :: "string list \<times> state \<Rightarrow> actionBilling \<Rightarrow> string list \<times> state" where
  "collectAction acc record =
     (case acc of (collected, w) \<Rightarrow>
        if alreadyCollected collected (abName record)
        then (collected, logDebug ''Already collected action billing'' w)
        else
          (let labels = [abType record, abName record];
               w1 = logDebug ''Collecting action billing'' w;
               w2 = send (MustNewConstMetric ''github_action_billing_minutes_used''
                            (TotalMinutesUsed record) labels) w1;
               w3 = send (MustNewConstMetric ''github_action_billing_paid_minutes''
                            (TotalPaidMinutesUsed record) labels) w2;
               w4 = send (MustNewConstMetric ''github_action_billing_included_minutes''
                            (IncludedMinutes record) labels) w3;
               w5 = foldl (\<lambda>w' entry.
                             send (MustNewConstMetric
                                     ''github_action_billing_minutes_used_breakdown''
                                     (goFloat64 (snd entry)) (labels @ [fst entry])) w')
                      w4 (MinutesUsedBreakdown record)
           in (collected @ [abName record], w5)))"

definition collectPackage :: "string list \<times> state \<Rightarrow> packageBilling \<Rightarrow> string list \<times> state" where
  "collectPackage acc record =
     (case acc of (collected, w) \<Rightarrow>
        if alreadyCollected collected (pbName record)
        then (collected, logDebug ''Already collected package billing'' w)
        else
          (let labels = [pbType record, pbName record];
               w1 = logDebug ''Collecting package billing'' w;
               w2 = send (MustNewConstMetric ''github_package_billing_gigabytes_bandwidth_used''
                            (TotalGigabytesBandwidthUsed record) labels) w1;
               w3 = send (MustNewConstMetric
                            ''github_package_billing_paid_gigabytes_bandwidth_used''
                            (TotalPaidGigabytesBandwidthUsed record) labels) w2;
               w4 = send (MustNewConstMetric
                            ''github_package_billing_included_gigabytes_bandwidth''
                            (IncludedGigabytesBandwidth record) labels) w3
           in (collected @ [pbName record], w4)))"

definition collectStorage :: "string list \<times> state \<Rightarrow> storageBilling \<Rightarrow> string list \<times> state" where
  "collectStorage acc record =
     (case acc of (collected, w) \<Rightarrow>
        if alreadyCollected collected (sbName record)
        then (collected, logDebug ''Already collected storage billing'' w)
        else
          (let labels = [sbType record, sbName record];
               w1 = logDebug ''Collecting storage billing'' w;
               w2 = send (MustNewConstMetric ''github_storage_billing_days_left_in_cycle''
                            (goFloat64 (DaysLeftInBillingCycle record)) labels) w1;
               w3 = send (MustNewConstMetric
                            ''github_storage_billing_estimated_paid_storage_for_month''
                            (EstimatedPaidStorageForMonth record) labels) w2;
               w4 = send (MustNewConstMetric
                            ''github_storage_billing_estimated_storage_for_month''
                            (EstimatedStorageForMonth record) labels) w3
           in (collected @ [sbName record], w4)))"

text \<open>
  \<open>Collect\<close>: three blocks, each fetching, observing the duration, logging the count and
  emitting the records not yet collected.
\<close>

definition BillingCollector_Collect :: "UsageItem client \<Rightarrow> Target \<Rightarrow> state \<Rightarrow> state" where
  "BillingCollector_Collect c cfg w =
     (let (actions, a1) = getActionBilling c cfg w;
          a2 = durationObserve ''action'' a1;
          a3 = logDebug ''Fetched action billing'' a2;
          a4 = snd (foldl collectAction ([], a3) actions);
          (packages, p1) = getPackageBilling c cfg a4;
          p2 = durationObserve ''action'' p1;
          p3 = logDebug ''Fetched package billing'' p2;
          p4 = snd (foldl collectPackage ([], p3) packages);
          (storage, s1) = getStorageBilling c cfg p4;
          s2 = durationObserve ''action'' s1;
          s3 = logDebug ''Fetched storage billing'' s2
      in snd (foldl collectStorage ([], s3) storage))"

section \<open>The billing collector of the enhanced billing platform (v5)\<close>

text \<open>
  The usage item of the v5 collector carries two more fields, set by the collector itself:
  the entity type (\<open>org\<close> or \<open>enterprise\<close>) and the entity name.
\<close>

record UsageItemV5 = UsageItem +
  Type :: string
  Name :: string

subsection \<open>fetchBillingUsageForEntity and getBillingUsage\<close>

definition fetchBillingUsageForEntity ::
  "UsageItemV5 client \<Rightarrow> string \<Rightarrow> string \<Rightarrow> state \<Rightarrow> UsageItemV5 list \<times> state" where
  "fetchBillingUsageForEntity c entityType name w =
     (let endpoint = (if entityType = ''enterprise''
                      then ''/enterprises/'' @ name @ ''/settings/billing/usage''
                      else ''/organizations/'' @ name @ ''/settings/billing/usage'')
      in case NewRequest c endpoint of
           Inl err \<Rightarrow> ([], failuresInc ''billing'' (logError ''Failed to prepare billing request'' w))
         | Inr req \<Rightarrow>
             (case Do c req of
                Inl err \<Rightarrow>
                  ([], failuresInc ''billing'' (logError ''Failed to fetch billing usage'' w))
              | Inr usageItems \<Rightarrow>
                  (map (\<lambda>item. item \<lparr> Type := entityType, Name := name \<rparr>) usageItems, w)))"

definition billingUsageFor ::
  "UsageItemV5 client \<Rightarrow> string \<Rightarrow> UsageItemV5 list \<times> state \<Rightarrow> string
     \<Rightarrow> UsageItemV5 list \<times> state" where
  "billingUsageFor c entityType acc name =
     (case acc of (result, w) \<Rightarrow>
        (case fetchBillingUsageForEntity c entityType name w of
           (items, w') \<Rightarrow> (result @ items, w')))"

definition getBillingUsage ::
  "UsageItemV5 client \<Rightarrow> Target \<Rightarrow> state \<Rightarrow> UsageItemV5 list \<times> state" where
  "getBillingUsage c cfg w =
     foldl (billingUsageFor c ''org'')
       (foldl (billingUsageFor c ''enterprise'') ([], w) (Enterprises cfg))
       (Orgs cfg)"

subsection \<open>Collect\<close>

text \<open>\<open>fmt.Sprintf("%s-%s-%s-%s-%s", item.Type, item.Name, item.Product, item.SKU, item.Date)\<close>\<close>

definition billingKey :: "UsageItemV5 \<Rightarrow> string" where
  "billingKey item =
     Type item @ ''-'' @ Name item @ ''-'' @ Product item @ ''-'' @ SKU item @ ''-'' @ Date item"

text \<open>
  One iteration of the loop over the usage items. \<open>collected\<close> is the Go
  \<open>map[string]bool\<close>: a key that was never stored reads \<open>false\<close>.
\<close>

definition collectUsage ::
  "(string \<Rightarrow> bool) \<times> state \<Rightarrow> UsageItemV5 \<Rightarrow> (string \<Rightarrow> bool) \<times> state" where
  "collectUsage acc item =
     (case acc of (collected, w) \<Rightarrow>
        (let key = billingKey item in
         if collected key then (collected, logDebug ''Already collected billing usage'' w)
         else
           (let w1 = logDebug ''Collecting billing usage'' w;
                labels = [Type item, Name item, Product item, SKU item, UnitType item,
                          Date item, OrganizationName item, RepositoryName item];
                w2 = send (MustNewConstMetric ''github_billing_usage'' (Quantity item) labels) w1;
                w3 = send (MustNewConstMetric ''github_billing_usage_gross_amount''
                             (GrossAmount item) labels) w2;
                w4 = send (MustNewConstMetric ''github_billing_usage_discount_amount''
                             (DiscountAmount item) labels) w3;
                w5 = send (MustNewConstMetric ''github_billing_usage_net_amount''
                             (NetAmount item) labels) w4;
                w6 = send (MustNewConstMetric ''github_billing_usage_price_per_unit''
                             (PricePerUnit item) labels) w5
            in (collected (key := True), w6))))"

definition BillingCollectorV5_Collect :: "UsageItemV5 client \<Rightarrow> Target \<Rightarrow> state \<Rightarrow> state" where
  "BillingCollectorV5_Collect c cfg w =
     (let (usageItems, w1) = getBillingUsage c cfg w;
          w2 = durationObserve ''billing'' w1;
          w3 = logDebug ''Fetched billing usage'' w2
      in snd (foldl collectUsage (\<lambda>key. False, w3) usageItems))"

section \<open>The runner collector\<close>

text \<open>
  The records of the API library are structs of pointers: a field the upstream left out
  is \<open>nil\<close>, here \<open>None\<close>. The library's getters give the zero value for a \<open>nil\<close> field;
  reading a field through \<open>*\<close> panics on \<open>nil\<close>.
\<close>

record Runner =
  ID :: "64 word option"
  RunnerName :: "string option"
  OS :: "string option"
  Status :: "string option"
  Busy :: "bool option"

definition GetID :: "Runner \<Rightarrow> 64 word" where
  "GetID r = (case ID r of None \<Rightarrow> 0 | Some v \<Rightarrow> v)"

definition GetName :: "Runner \<Rightarrow> string" where
  "GetName r = (case RunnerName r of None \<Rightarrow> '''' | Some v \<Rightarrow> v)"

definition GetOS :: "Runner \<Rightarrow> string" where
  "GetOS r = (case OS r of None \<Rightarrow> '''' | Some v \<Rightarrow> v)"

definition GetStatus :: "Runner \<Rightarrow> string" where
  "GetStatus r = (case Status r of None \<Rightarrow> '''' | Some v \<Rightarrow> v)"

record User =
  Login :: "string option"

record Repository =
  FullName :: "string option"
  Owner :: "User option"
  RepoName :: "string option"

text \<open>\<open>github.ListOptions\<close> and the part of \<open>github.Response\<close> the loops read.\<close>

record ListOptions =
  PerPage :: int
  Page :: int

text \<open>
  The upstream as the runner collector calls it. A listing call gives an error or the
  runners of one page with the response's \<open>NextPage\<close>. \<open>reposByOwnerAndName\<close> is a helper
  of the exporter declared outside the files at hand; it asks the upstream for the
  repositories of an owner, so it is part of the client here.
\<close>

record runnerClient =
  reposByOwnerAndName :: "string \<Rightarrow> string \<Rightarrow> error + Repository list"
  ListRunners :: "string \<Rightarrow> string \<Rightarrow> ListOptions \<Rightarrow> error + Runner list \<times> int"
  ListEnterpriseRunners :: "string \<Rightarrow> ListOptions \<Rightarrow> error + Runner list \<times> int"
  ListOrganizationRunners :: "string \<Rightarrow> ListOptions \<Rightarrow> error + Runner list \<times> int"

text \<open>
  A call either returns or panics on a \<open>nil\<close> pointer. A loop over pages that never ends
  has no result at all: \<open>None\<close> below.
\<close>

datatype 'a outcome = Done 'a | Panic

subsection \<open>strconv and strings\<close>

text \<open>\<open>strconv.FormatInt(i, 10)\<close>\<close>

fun formatNat :: "nat \<Rightarrow> string" where
  "formatNat n =
     (if n < 10 then [''0123456789'' ! n]
      else formatNat (n div 10) @ [''0123456789'' ! (n mod 10)])"

definition FormatInt :: "64 word \<Rightarrow> string" where
  "FormatInt i = (if sint i < 0 then CHR ''-'' # formatNat (nat (- sint i)) else formatNat (nat (sint i)))"

text \<open>\<open>strings.Split(s, sep)\<close> for a separator of one byte, as in \<open>strings.Split(name, "/")\<close>.\<close>

fun Split :: "string \<Rightarrow> char \<Rightarrow> string list" where
  "Split [] sep = [[]]"
| "Split (c # cs) sep =
     (if c = sep then [] # Split cs sep
      else (case Split cs sep of
              [] \<Rightarrow> [[c]]
            | part # parts \<Rightarrow> (c # part) # parts))"

subsection \<open>The paginated fetchers\<close>

text \<open>
  The loop of \<open>pagedRepoRunners\<close>, \<open>pagedEnterpriseRunners\<close> and \<open>pagedOrgRunners\<close>: the
  three differ in the listing call and the page size only. The loop ends when a call
  fails or a response has \<open>NextPage = 0\<close>; on other responses it goes on, so it is a
  partial function.
\<close>

partial_function (option) pagedLoop ::
  "(ListOptions \<Rightarrow> error + Runner list \<times> int) \<Rightarrow> ListOptions \<Rightarrow> Runner list
     \<Rightarrow> (error + Runner list) option" where
  "pagedLoop list opts runners =
     (case list opts of
        Inl err \<Rightarrow> Some (Inl err)
      | Inr (result, nextPage) \<Rightarrow>
          if nextPage = 0 then Some (Inr (runners @ result))
          else pagedLoop list (opts \<lparr> Page := nextPage \<rparr>) (runners @ result))"

definition pagedRepoRunners ::
  "runnerClient \<Rightarrow> string \<Rightarrow> string \<Rightarrow> (error + Runner list) option" where
  "pagedRepoRunners c owner name =
     pagedLoop (ListRunners c owner name) \<lparr> PerPage = 200, Page = 0 \<rparr> []"

definition pagedEnterpriseRunners :: "runnerClient \<Rightarrow> string \<Rightarrow> (error + Runner list) option" where
  "pagedEnterpriseRunners c name =
     pagedLoop (ListEnterpriseRunners c name) \<lparr> PerPage = 50, Page = 0 \<rparr> []"

definition pagedOrgRunners :: "runnerClient \<Rightarrow> string \<Rightarrow> (error + Runner list) option" where
  "pagedOrgRunners c name =
     pagedLoop (ListOrganizationRunners c name) \<lparr> PerPage = 50, Page = 0 \<rparr> []"

subsection \<open>repoRunners, enterpriseRunners, orgRunners\<close>

text \<open>
  The inner loop of \<open>repoRunners\<close> over the repositories of one pattern. \<open>glob\<close> is
  \<open>glob.Glob\<close> of the library the exporter imports.
\<close>

fun reposLoop ::
  "(string \<Rightarrow> string \<Rightarrow> bool) \<Rightarrow> runnerClient \<Rightarrow> string \<Rightarrow> Repository list
     \<Rightarrow> Runner list \<times> state \<Rightarrow> (Runner list \<times> state) outcome option" where
  "reposLoop glob c name [] acc = Some (Done acc)"
| "reposLoop glob c name (repo # repos) acc =
     (case FullName repo of
        None \<Rightarrow> Some Panic
      | Some fullName \<Rightarrow>
          if \<not> glob name fullName then reposLoop glob c name repos acc
          else
            (case Owner repo of
               None \<Rightarrow> Some Panic
             | Some owner \<Rightarrow>
                 (case Login owner of
                    None \<Rightarrow> Some Panic
                  | Some login \<Rightarrow>
                      (case RepoName repo of
                         None \<Rightarrow> Some Panic
                       | Some repoName \<Rightarrow>
                           (case pagedRepoRunners c login repoName of
                              None \<Rightarrow> None
                            | Some (Inl err) \<Rightarrow>
                                reposLoop glob c name repos
                                  (fst acc,
                                   failuresInc ''runner''
                                     (logError ''Failed to fetch repo runners'' (snd acc)))
                            | Some (Inr records) \<Rightarrow>
                                reposLoop glob c name repos
                                  (fst acc @ records, snd acc))))))"

text \<open>The outer loop over the configured repository patterns.\<close>

fun namesLoop ::
  "(string \<Rightarrow> string \<Rightarrow> bool) \<Rightarrow> runnerClient \<Rightarrow> string list
     \<Rightarrow> Runner list \<times> state \<Rightarrow> (Runner list \<times> state) outcome option" where
  "namesLoop glob c [] acc = Some (Done acc)"
| "namesLoop glob c (name # names) acc =
     (case Split name CHR ''/'' of
        [splitOwner, splitName] \<Rightarrow>
          (case reposByOwnerAndName c splitOwner splitName of
             Inl err \<Rightarrow>
               namesLoop glob c names
                 (fst acc, failuresInc ''runner'' (logError ''Failed to fetch repos'' (snd acc)))
           | Inr repos \<Rightarrow>
               (case reposLoop glob c name repos acc of
                  None \<Rightarrow> None
                | Some Panic \<Rightarrow> Some Panic
                | Some (Done acc') \<Rightarrow> namesLoop glob c names acc'))
      | _ \<Rightarrow>
          namesLoop glob c names
            (fst acc, failuresInc ''runner'' (logError ''Invalid repo name'' (snd acc))))"

definition repoRunners ::
  "(string \<Rightarrow> string \<Rightarrow> bool) \<Rightarrow> runnerClient \<Rightarrow> Target \<Rightarrow> state
     \<Rightarrow> (Runner list \<times> state) outcome option" where
  "repoRunners glob c cfg w = namesLoop glob c (Repos cfg) ([], w)"

text \<open>
  The loop of \<open>enterpriseRunners\<close> and of \<open>orgRunners\<close>: fetch all pages for a name; on an
  error log it, count the failure and go on with the next name.
\<close>

fun ownersLoop ::
  "(string \<Rightarrow> (error + Runner list) option) \<Rightarrow> string \<Rightarrow> string list
     \<Rightarrow> Runner list \<times> state \<Rightarrow> (Runner list \<times> state) option" where
  "ownersLoop paged msg [] acc = Some acc"
| "ownersLoop paged msg (name # names) acc =
     (case paged name of
        None \<Rightarrow> None
      | Some (Inl err) \<Rightarrow>
          ownersLoop paged msg names (fst acc, failuresInc ''runner'' (logError msg (snd acc)))
      | Some (Inr records) \<Rightarrow> ownersLoop paged msg names (fst acc @ records, snd acc))"

definition enterpriseRunners ::
  "runnerClient \<Rightarrow> Target \<Rightarrow> state \<Rightarrow> (Runner list \<times> state) option" where
  "enterpriseRunners c cfg w =
     ownersLoop (pagedEnterpriseRunners c) ''Failed to fetch enterprise runners''
       (Enterprises cfg) ([], w)"

definition orgRunners :: "runnerClient \<Rightarrow> Target \<Rightarrow> state \<Rightarrow> (Runner list \<times> state) option" where
  "orgRunners c cfg w =
     ownersLoop (pagedOrgRunners c) ''Failed to fetch org runners'' (Orgs cfg) ([], w)"

subsection \<open>Collect\<close>

text \<open>
  Modelled from the spec: \<open>boolToFloat64\<close> is called by \<open>Collect\<close> and declared outside the
  files at hand. The busy metrics are described as "1 if the runner is busy, 0 otherwise".
\<close>

definition boolToFloat64 :: "bool \<Rightarrow> float64" where
  "boolToFloat64 b = (if b then 1 else 0)"

text \<open>
  The loop over the records of one block of \<open>Collect\<close>; the three blocks differ in the two
  descriptors and in the first label value. The online metric is sent before
  \<open>*record.Busy\<close> is read.
\<close>

fun emitRunners :: "string \<Rightarrow> string \<Rightarrow> string \<Rightarrow> Runner list \<Rightarrow> state \<Rightarrow> state outcome" where
  "emitRunners onlineDesc busyDesc scope [] w = Done w"
| "emitRunners onlineDesc busyDesc scope (record # records) w =
     (let labels = [scope, FormatInt (GetID record), GetName record, GetOS record,
                    GetStatus record];
          online = (if GetStatus record = ''online'' then 1 else 0);
          w1 = send (MustNewConstMetric onlineDesc online labels) w
      in case Busy record of
           None \<Rightarrow> Panic
         | Some busy \<Rightarrow>
             emitRunners onlineDesc busyDesc scope records
               (send (MustNewConstMetric busyDesc (boolToFloat64 busy) labels) w1))"

definition RunnerCollector_Collect ::
  "(string \<Rightarrow> string \<Rightarrow> bool) \<Rightarrow> runnerClient \<Rightarrow> Target \<Rightarrow> state \<Rightarrow> state outcome option" where
  "RunnerCollector_Collect glob c cfg w =
     (case repoRunners glob c cfg w of
        None \<Rightarrow> None
      | Some Panic \<Rightarrow> Some Panic
      | Some (Done (records, w1)) \<Rightarrow>
          (case emitRunners ''github_runner_repo_online'' ''github_runner_repo_busy''
                  ''TODO: repo'' records (durationObserve ''runner'' w1) of
             Panic \<Rightarrow> Some Panic
           | Done w2 \<Rightarrow>
               (case enterpriseRunners c cfg w2 of
                  None \<Rightarrow> None
                | Some (records, w3) \<Rightarrow>
                    (case emitRunners ''github_runner_enterprise_online''
                            ''github_runner_enterprise_busy'' ''TODO: enterprise'' records
                            (durationObserve ''runner'' w3) of
                       Panic \<Rightarrow> Some Panic
                     | Done w4 \<Rightarrow>
                         (case orgRunners c cfg w4 of
                            None \<Rightarrow> None
                          | Some (records, w5) \<Rightarrow>
                              Some (emitRunners ''github_runner_org_online''
                                      ''github_runner_org_busy'' ''TODO: org'' records
                                      (durationObserve ''runner'' w5)))))))"

section \<open>Notions the statements use\<close>




text \<open>The state before a first \<open>Collect\<close>: nothing sent, counted, observed or logged.\<close>

definition emptyState :: state where
  "emptyState = \<lparr> ch = [], failures = [], duration = [], logger = [] \<rparr>"

subsection \<open>Concrete usage items\<close>

text \<open>The item of the spec's normalizer example, with a SKU that contains "linux".\<close>

definition linuxItem :: UsageItem where
  "linuxItem = \<lparr> Date = ''2025-01-01'', Product = ''actions'', SKU = ''actions_linux'',
                 Quantity = 10, UnitType = ''minutes'', PricePerUnit = 1, GrossAmount = 10,
                 DiscountAmount = 2, NetAmount = 8, OrganizationName = ''good'',
                 RepositoryName = ''good/r'' \<rparr>"




subsection \<open>A legacy scrape with one failing organization\<close>

text \<open>
  Two organizations are configured. Every request for "bad" fails; a request for "good"
  returns the Linux item above.
\<close>

definition failingClient :: "UsageItem client" where
  "failingClient =
     \<lparr> NewRequest = (\<lambda>endpoint. Inr endpoint),
       Do = (\<lambda>req. if req = ''/organizations/bad/settings/billing/usage''
                    then Inl (Error ''timeout'') else Inr [linuxItem]) \<rparr>"

definition failingConfig :: Target where
  "failingConfig = \<lparr> Repos = [], Enterprises = [], Orgs = [''bad'', ''good''] \<rparr>"

subsection \<open>A v5 scrape with two items whose keys coincide\<close>

text \<open>
  The organizations "a-b" and "a" are configured. The upstream reports one item for each:
  product "c" for "a-b" and product "b-c" for "a", with the same SKU and date.
\<close>

definition hyphenFirst :: UsageItemV5 where
  "hyphenFirst = \<lparr> Date = ''2025-01-01'', Product = ''c'', SKU = ''s'', Quantity = 1,
                   UnitType = ''minutes'', PricePerUnit = 1, GrossAmount = 1,
                   DiscountAmount = 0, NetAmount = 1, OrganizationName = ''a-b'',
                   RepositoryName = ''r'', Type = '''', Name = '''' \<rparr>"

definition hyphenSecond :: UsageItemV5 where
  "hyphenSecond = \<lparr> Date = ''2025-01-01'', Product = ''b-c'', SKU = ''s'', Quantity = 2,
                    UnitType = ''minutes'', PricePerUnit = 1, GrossAmount = 2,
                    DiscountAmount = 0, NetAmount = 2, OrganizationName = ''a'',
                    RepositoryName = ''r'', Type = '''', Name = '''' \<rparr>"

definition hyphenClient :: "UsageItemV5 client" where
  "hyphenClient =
     \<lparr> NewRequest = (\<lambda>endpoint. Inr endpoint),
       Do = (\<lambda>req. if req = ''/organizations/a-b/settings/billing/usage''
                    then Inr [hyphenFirst] else Inr [hyphenSecond]) \<rparr>"

definition hyphenConfig :: Target where
  "hyphenConfig = \<lparr> Repos = [], Enterprises = [], Orgs = [''a-b'', ''a''] \<rparr>"

subsection \<open>An upstream that serves a fixed sequence of pages\<close>

text \<open>
  The test double of the spec's pagination property: the listing call answers a request
  for page \<open>p\<close> (no page, page 0, asks for the first) with the \<open>p\<close>-th element of
  \<open>pages\<close>, an error or the runners of that page, and announces the next page number while
  one is left.
\<close>

definition pageServer ::
  "(error + Runner list) list \<Rightarrow> ListOptions \<Rightarrow> error + Runner list \<times> int" where
  "pageServer pages opts =
     (let i = nat (Page opts - 1)
      in if i < length pages
         then (case pages ! i of
                 Inl err \<Rightarrow> Inl err
               | Inr runners \<Rightarrow> Inr (runners, if i + 1 < length pages then int i + 2 else 0))
         else Inr ([], 0))"

definition pagedClient :: "(error + Runner list) list \<Rightarrow> runnerClient" where
  "pagedClient pages =
     \<lparr> reposByOwnerAndName = (\<lambda>owner name. Inr []),
       ListRunners = (\<lambda>owner name. pageServer pages),
       ListEnterpriseRunners = (\<lambda>name. pageServer pages),
       ListOrganizationRunners = (\<lambda>name. pageServer pages) \<rparr>"

subsection \<open>The samples of one runner record\<close>

text \<open>
  What one iteration of a block of \<open>Collect\<close> sends for a record: the online sample, and
  after it the busy sample when the record has a busy flag.
\<close>

definition runnerLabels :: "string \<Rightarrow> Runner \<Rightarrow> string list" where
  "runnerLabels scope r = [scope, FormatInt (GetID r), GetName r, GetOS r, GetStatus r]"

definition runnerSamples :: "string \<Rightarrow> string \<Rightarrow> string \<Rightarrow> Runner \<Rightarrow> Metric list" where
  "runnerSamples onlineDesc busyDesc scope r =
     MustNewConstMetric onlineDesc (if GetStatus r = ''online'' then 1 else 0)
       (runnerLabels scope r) #
     (case Busy r of
        None \<Rightarrow> []
      | Some busy \<Rightarrow> [MustNewConstMetric busyDesc (boolToFloat64 busy) (runnerLabels scope r)])"

subsection \<open>Concrete runners\<close>

text \<open>
  Runner 7 of organization "o", which the upstream lists on the first page and, the list
  having shifted between the two requests, again on the second.
\<close>

definition runner7 :: Runner where
  "runner7 = \<lparr> ID = Some 7, RunnerName = Some ''runner-7'', OS = Some ''linux'',
               Status = Some ''online'', Busy = Some False \<rparr>"

definition shiftedClient :: runnerClient where
  "shiftedClient = pagedClient [Inr [runner7], Inr [runner7]]"

text \<open>Runner 8, which the upstream reports without a busy field.\<close>

definition runner8 :: Runner where
  "runner8 = \<lparr> ID = Some 8, RunnerName = Some ''runner-8'', OS = Some ''linux'',
               Status = Some ''offline'', Busy = None \<rparr>"

definition nilBusyClient :: runnerClient where
  "nilBusyClient = pagedClient [Inr [runner8]]"

definition orgConfig :: Target where
  "orgConfig = \<lparr> Repos = [], Enterprises = [], Orgs = [''o''] \<rparr>"

text \<open>A matcher for scrapes without repository patterns: plain equality.\<close>

definition exactMatch :: "string \<Rightarrow> string \<Rightarrow> bool" where
  "exactMatch pattern subj = (pattern = subj)"

subsection \<open>The glob matcher\<close>






text \<open>The state after a first \<open>Collect\<close> against the upstream that lists runner 7 twice.\<close>

definition shiftedResult :: state where
  "shiftedResult =
     emptyState
       \<lparr> ch := [MustNewConstMetric ''github_runner_org_online'' 1
                  [''TODO: org'', ''7'', ''runner-7'', ''linux'', ''online''],
                MustNewConstMetric ''github_runner_org_busy'' 0
                  [''TODO: org'', ''7'', ''runner-7'', ''linux'', ''online''],
                MustNewConstMetric ''github_runner_org_online'' 1
                  [''TODO: org'', ''7'', ''runner-7'', ''linux'', ''online''],
                MustNewConstMetric ''github_runner_org_busy'' 0
                  [''TODO: org'', ''7'', ''runner-7'', ''linux'', ''online'']],
         duration := [''runner'', ''runner'', ''runner''] \<rparr>"

subsection \<open>Entities whose fetch fails\<close>

text \<open>
  A fetch of the usage endpoint fails when the request cannot be prepared or the call
  returns an error. \<open>failing\<close> counts the configured enterprises and organizations whose
  fetch fails, \<open>working\<close> is the configuration without them, and \<open>errorLines\<close> counts the
  log lines at error level.
\<close>

definition usageFails :: "'item client \<Rightarrow> string \<Rightarrow> bool" where
  "usageFails c endpoint =
     (case NewRequest c endpoint of
        Inl err \<Rightarrow> True
      | Inr req \<Rightarrow> (case Do c req of Inl err \<Rightarrow> True | Inr usageItems \<Rightarrow> False))"

definition failing :: "'item client \<Rightarrow> Target \<Rightarrow> nat" where
  "failing c cfg =
     length (filter (\<lambda>name. usageFails c (enterpriseEndpoint name)) (Enterprises cfg)) +
     length (filter (\<lambda>name. usageFails c (organizationEndpoint name)) (Orgs cfg))"

definition working :: "'item client \<Rightarrow> Target \<Rightarrow> Target" where
  "working c cfg =
     cfg \<lparr> Enterprises :=
             filter (\<lambda>name. \<not> usageFails c (enterpriseEndpoint name)) (Enterprises cfg),
           Orgs := filter (\<lambda>name. \<not> usageFails c (organizationEndpoint name)) (Orgs cfg) \<rparr>"

definition errorLines :: "state \<Rightarrow> nat" where
  "errorLines w = length (filter (\<lambda>line. fst line = ''error'') (logger w))"

subsection \<open>Runs that send the same samples\<close>

text \<open>
  Two loop states agree when they hold the same set of collected keys and the same
  channel contents; the counters and the log may differ.
\<close>

definition sameSamples :: "'a \<times> state \<Rightarrow> 'a \<times> state \<Rightarrow> bool" where
  "sameSamples a b = (fst a = fst b \<and> ch (snd a) = ch (snd b))"

text \<open>The five samples the v5 collector sends for a usage item.\<close>

definition usageSamples :: "UsageItemV5 \<Rightarrow> Metric list" where
  "usageSamples item =
     (let labels = [Type item, Name item, Product item, SKU item, UnitType item, Date item,
                    OrganizationName item, RepositoryName item]
      in [MustNewConstMetric ''github_billing_usage'' (Quantity item) labels,
          MustNewConstMetric ''github_billing_usage_gross_amount'' (GrossAmount item) labels,
          MustNewConstMetric ''github_billing_usage_discount_amount'' (DiscountAmount item)
            labels,
          MustNewConstMetric ''github_billing_usage_net_amount'' (NetAmount item) labels,
          MustNewConstMetric ''github_billing_usage_price_per_unit'' (PricePerUnit item)
            labels])"

section \<open>The legacy normalizer\<close>

subsection \<open>Maps and strings\<close>













subsection \<open>One item, then the whole loop\<close>



















lemma parse_linuxItem:
  "parseUsageResponse (Some [linuxItem]) ''org'' ''good'' =
     (\<lparr> abType = ''org'', abName = ''good'', TotalMinutesUsed = 10, TotalPaidMinutesUsed = 8,
        IncludedMinutes = 2, MinutesUsedBreakdown = [(''UBUNTU'', 10)] \<rparr>,
      \<lparr> pbType = ''org'', pbName = ''good'', TotalGigabytesBandwidthUsed = 0,
        TotalPaidGigabytesBandwidthUsed = 0, IncludedGigabytesBandwidth = 0 \<rparr>,
      \<lparr> sbType = ''org'', sbName = ''good'', DaysLeftInBillingCycle = 0,
        EstimatedPaidStorageForMonth = 0, EstimatedStorageForMonth = 0 \<rparr>)"
  by (simp add: linuxItem_def parseUsageResponse_def parseItem_def parseActions_def
      extractOSFromSKU_def ToLower_def toLowerByte_def mapGet_def goInt_def truncToZero_def
      Let_def)


subsection \<open>The actions bucket\<close>




subsection \<open>Bytes to gigabytes\<close>



subsection \<open>The breakdown truncates\<close>



section \<open>The legacy collector\<close>

subsection \<open>What leaves the duration observations alone\<close>

lemma duration_send [simp]: "duration (send m w) = duration w"
  by (simp add: send_def)

lemma duration_failuresInc [simp]: "duration (failuresInc l w) = duration w"
  by (simp add: failuresInc_def)

lemma duration_logError [simp]: "duration (logError m w) = duration w"
  by (simp add: logError_def)

lemma duration_logDebug [simp]: "duration (logDebug m w) = duration w"
  by (simp add: logDebug_def)

lemma duration_durationObserve [simp]: "duration (durationObserve l w) = duration w @ [l]"
  by (simp add: durationObserve_def)

lemma duration_fetchUsage:
  "fetchUsage c l m1 m2 e w = (r, w') \<Longrightarrow> duration w' = duration w"
  by (auto simp: fetchUsage_def split: sum.splits)

lemma duration_actionBillingFor:
  "duration (snd (actionBillingFor c t e acc name)) = duration (snd acc)"
  by (cases acc) (auto simp: actionBillingFor_def split: prod.splits option.splits
      dest: duration_fetchUsage)

lemma duration_packageBillingFor:
  "duration (snd (packageBillingFor c t e acc name)) = duration (snd acc)"
  by (cases acc) (auto simp: packageBillingFor_def split: prod.splits option.splits
      dest: duration_fetchUsage)

lemma duration_storageBillingFor:
  "duration (snd (storageBillingFor c t e acc name)) = duration (snd acc)"
  by (cases acc) (auto simp: storageBillingFor_def split: prod.splits option.splits
      dest: duration_fetchUsage)

text \<open>A loop whose every step keeps a component of the state keeps it.\<close>

lemma foldl_frame:
  assumes "\<And>acc x. f (snd (step acc x)) = f (snd acc)"
  shows "f (snd (foldl step acc xs)) = f (snd acc)"
  using assms by (induction xs arbitrary: acc) simp_all

lemma duration_getActionBilling: "duration (snd (getActionBilling c cfg w)) = duration w"
  by (simp add: getActionBilling_def foldl_frame [where f = duration]
      duration_actionBillingFor)

lemma duration_getPackageBilling: "duration (snd (getPackageBilling c cfg w)) = duration w"
  by (simp add: getPackageBilling_def foldl_frame [where f = duration]
      duration_packageBillingFor)

lemma duration_getStorageBilling: "duration (snd (getStorageBilling c cfg w)) = duration w"
  by (simp add: getStorageBilling_def foldl_frame [where f = duration]
      duration_storageBillingFor)

lemma duration_breakdown:
  "duration (foldl (\<lambda>w' entry. send (g entry) w') w entries) = duration w"
  by (induction entries arbitrary: w) simp_all

lemma duration_collectAction: "duration (snd (collectAction acc r)) = duration (snd acc)"
  by (cases acc) (simp add: collectAction_def Let_def duration_breakdown)

lemma duration_collectPackage: "duration (snd (collectPackage acc r)) = duration (snd acc)"
  by (cases acc) (simp add: collectPackage_def Let_def)

lemma duration_collectStorage: "duration (snd (collectStorage acc r)) = duration (snd acc)"
  by (cases acc) (simp add: collectStorage_def Let_def)

subsection \<open>The duration observations of one Collect\<close>

text \<open>
  Claim C8 on the code. Whatever the client answers and whichever targets are configured,
  one \<open>Collect\<close> of the legacy billing collector adds exactly three duration
  observations, one per sub-fetch, and all three carry the label "action": the package
  fetch and the storage fetch are not observed under a label of their own.
\<close>

theorem legacy_Collect_observes_action_thrice:
  "duration (BillingCollector_Collect c cfg w) =
     duration w @ [''action'', ''action'', ''action'']"
proof -
  obtain actions a1 where a: "getActionBilling c cfg w = (actions, a1)"
    by (cases "getActionBilling c cfg w")
  define a4 where "a4 = snd (foldl collectAction
      ([], logDebug ''Fetched action billing'' (durationObserve ''action'' a1)) actions)"
  obtain packages p1 where p: "getPackageBilling c cfg a4 = (packages, p1)"
    by (cases "getPackageBilling c cfg a4")
  define p4 where "p4 = snd (foldl collectPackage
      ([], logDebug ''Fetched package billing'' (durationObserve ''action'' p1)) packages)"
  obtain storage s1 where s: "getStorageBilling c cfg p4 = (storage, s1)"
    by (cases "getStorageBilling c cfg p4")
  have da1: "duration a1 = duration w"
    using duration_getActionBilling [of c cfg w] by (simp add: a)
  have da4: "duration a4 = duration w @ [''action'']"
    by (simp add: a4_def foldl_frame [where f = duration] duration_collectAction da1)
  have dp1: "duration p1 = duration a4"
    using duration_getPackageBilling [of c cfg a4] by (simp add: p)
  have dp4: "duration p4 = duration w @ [''action'', ''action'']"
    by (simp add: p4_def foldl_frame [where f = duration] duration_collectPackage dp1 da4)
  have ds1: "duration s1 = duration p4"
    using duration_getStorageBilling [of c cfg p4] by (simp add: s)
  have "BillingCollector_Collect c cfg w =
      snd (foldl collectStorage
        ([], logDebug ''Fetched storage billing'' (durationObserve ''action'' s1)) storage)"
    by (simp add: BillingCollector_Collect_def Let_def a a4_def [symmetric] p
        p4_def [symmetric] s)
  then show ?thesis
    by (simp add: foldl_frame [where f = duration] duration_collectStorage ds1 dp4)
qed

subsection \<open>One failing organization\<close>

lemma fetchUsage_bad:
  "fetchUsage failingClient l m1 m2 (organizationEndpoint ''bad'') w =
     (None, failuresInc l (logError m2 w))"
  by (simp add: fetchUsage_def failingClient_def organizationEndpoint_def)

lemma fetchUsage_good:
  "fetchUsage failingClient l m1 m2 (organizationEndpoint ''good'') w = (Some [linuxItem], w)"
  by (simp add: fetchUsage_def failingClient_def organizationEndpoint_def)

text \<open>
  Claim C4 on the legacy collector, with the organizations "bad" and "good" configured and
  every request for "bad" failing. \<open>Collect\<close> returns, and the ten samples of "good" are
  sent. The one failing organization is counted three times, once by each of the three
  fetches, and each time under the label "action"; the counter under "billing", the label
  the constructor registers for this collector, stays at zero, as do "package" and
  "storage".
\<close>

theorem legacy_Collect_failing_organization:
  "failures (BillingCollector_Collect failingClient failingConfig emptyState) =
     [''action'', ''action'', ''action''] \<and>
   map (\<lambda>m. (fqName m, labelValues m))
     (ch (BillingCollector_Collect failingClient failingConfig emptyState)) =
     [(''github_action_billing_minutes_used'', [''org'', ''good'']),
      (''github_action_billing_paid_minutes'', [''org'', ''good'']),
      (''github_action_billing_included_minutes'', [''org'', ''good'']),
      (''github_action_billing_minutes_used_breakdown'', [''org'', ''good'', ''UBUNTU'']),
      (''github_package_billing_gigabytes_bandwidth_used'', [''org'', ''good'']),
      (''github_package_billing_paid_gigabytes_bandwidth_used'', [''org'', ''good'']),
      (''github_package_billing_included_gigabytes_bandwidth'', [''org'', ''good'']),
      (''github_storage_billing_days_left_in_cycle'', [''org'', ''good'']),
      (''github_storage_billing_estimated_paid_storage_for_month'', [''org'', ''good'']),
      (''github_storage_billing_estimated_storage_for_month'', [''org'', ''good''])] \<and>
   map fst (logger (BillingCollector_Collect failingClient failingConfig emptyState)) =
     [''error'', ''debug'', ''debug'', ''error'', ''debug'', ''debug'', ''error'', ''debug'',
      ''debug'']"
  by (simp add: BillingCollector_Collect_def getActionBilling_def getPackageBilling_def
      getStorageBilling_def actionBillingFor_def packageBillingFor_def storageBillingFor_def
      fetchUsage_bad fetchUsage_good parse_linuxItem failingConfig_def emptyState_def
      collectAction_def collectPackage_def collectStorage_def alreadyCollected_def
      send_def failuresInc_def logError_def logDebug_def durationObserve_def
      MustNewConstMetric_def Let_def)

section \<open>The v5 billing collector\<close>

lemma getBillingUsage_hyphen:
  "getBillingUsage hyphenClient hyphenConfig emptyState =
     ([hyphenFirst \<lparr> Type := ''org'', Name := ''a-b'' \<rparr>,
       hyphenSecond \<lparr> Type := ''org'', Name := ''a'' \<rparr>], emptyState)"
  by (simp add: getBillingUsage_def billingUsageFor_def fetchBillingUsageForEntity_def
      hyphenClient_def hyphenConfig_def Let_def)

text \<open>
  Claim C1 on the code, with the organizations "a-b" and "a" configured. The two fetched
  items differ in name and in product, so their composite keys (type, name, product, SKU,
  date) differ, and each is the first item with its key. The string the collector
  deduplicates by is the same for both, "org-a-b-c-s-2025-01-01", so \<open>Collect\<close> sends the
  five samples of the first item and none for the second.
\<close>

theorem v5_Collect_drops_item_with_new_key:
  "fst (getBillingUsage hyphenClient hyphenConfig emptyState) =
     [hyphenFirst \<lparr> Type := ''org'', Name := ''a-b'' \<rparr>,
      hyphenSecond \<lparr> Type := ''org'', Name := ''a'' \<rparr>] \<and>
   (Name (hyphenFirst \<lparr> Type := ''org'', Name := ''a-b'' \<rparr>), Product hyphenFirst) \<noteq>
   (Name (hyphenSecond \<lparr> Type := ''org'', Name := ''a'' \<rparr>), Product hyphenSecond) \<and>
   billingKey (hyphenFirst \<lparr> Type := ''org'', Name := ''a-b'' \<rparr>) = ''org-a-b-c-s-2025-01-01'' \<and>
   billingKey (hyphenSecond \<lparr> Type := ''org'', Name := ''a'' \<rparr>) = ''org-a-b-c-s-2025-01-01'' \<and>
   map (\<lambda>m. (fqName m, gauge m, labelValues m))
     (ch (BillingCollectorV5_Collect hyphenClient hyphenConfig emptyState)) =
     [(''github_billing_usage'', 1,
       [''org'', ''a-b'', ''c'', ''s'', ''minutes'', ''2025-01-01'', ''a-b'', ''r'']),
      (''github_billing_usage_gross_amount'', 1,
       [''org'', ''a-b'', ''c'', ''s'', ''minutes'', ''2025-01-01'', ''a-b'', ''r'']),
      (''github_billing_usage_discount_amount'', 0,
       [''org'', ''a-b'', ''c'', ''s'', ''minutes'', ''2025-01-01'', ''a-b'', ''r'']),
      (''github_billing_usage_net_amount'', 1,
       [''org'', ''a-b'', ''c'', ''s'', ''minutes'', ''2025-01-01'', ''a-b'', ''r'']),
      (''github_billing_usage_price_per_unit'', 1,
       [''org'', ''a-b'', ''c'', ''s'', ''minutes'', ''2025-01-01'', ''a-b'', ''r''])]"
proof -
  have run: "BillingCollectorV5_Collect hyphenClient hyphenConfig emptyState =
      snd (foldl collectUsage
             (\<lambda>key. False,
              logDebug ''Fetched billing usage'' (durationObserve ''billing'' emptyState))
             [hyphenFirst \<lparr> Type := ''org'', Name := ''a-b'' \<rparr>,
              hyphenSecond \<lparr> Type := ''org'', Name := ''a'' \<rparr>])"
    by (simp add: BillingCollectorV5_Collect_def getBillingUsage_hyphen)
  have usage: "fst (getBillingUsage hyphenClient hyphenConfig emptyState) =
     [hyphenFirst \<lparr> Type := ''org'', Name := ''a-b'' \<rparr>,
      hyphenSecond \<lparr> Type := ''org'', Name := ''a'' \<rparr>]"
    by (simp add: getBillingUsage_hyphen)
  show ?thesis
    unfolding run usage
    by (simp add: collectUsage_def billingKey_def hyphenFirst_def hyphenSecond_def
        emptyState_def send_def logDebug_def durationObserve_def MustNewConstMetric_def
        Let_def)
qed

section \<open>The runner collector\<close>

subsection \<open>The paginated fetcher\<close>

lemma pageServer_at:
  "i < length pages \<Longrightarrow>
   pageServer pages \<lparr> PerPage = n, Page = int i + 1 \<rparr> =
     (case pages ! i of
        Inl err \<Rightarrow> Inl err
      | Inr runners \<Rightarrow> Inr (runners, if i + 1 < length pages then int i + 2 else 0))"
  by (simp add: pageServer_def Let_def)

lemma pagedLoop_ok:
  "i < length recs \<Longrightarrow>
   pagedLoop (pageServer (map Inr recs)) \<lparr> PerPage = n, Page = int i + 1 \<rparr> acc =
     Some (Inr (acc @ concat (drop i recs)))"
proof (induction "length recs - i" arbitrary: i acc)
  case 0
  then show ?case by simp
next
  case (Suc d)
  have at: "pageServer (map Inr recs) \<lparr> PerPage = n, Page = int i + 1 \<rparr> =
      Inr (recs ! i, if i + 1 < length recs then int i + 2 else 0)"
    using Suc.prems by (simp add: pageServer_at)
  have dr: "drop i recs = recs ! i # drop (Suc i) recs"
    using Suc.prems by (simp add: Cons_nth_drop_Suc)
  show ?case
  proof (cases "i + 1 < length recs")
    case True
    have "d = length recs - Suc i" using Suc.hyps(2) by simp
    from Suc.hyps(1) [OF this, of "acc @ recs ! i"] True
    have ih: "pagedLoop (pageServer (map Inr recs)) \<lparr> PerPage = n, Page = int i + 2 \<rparr>
        (acc @ recs ! i) = Some (Inr ((acc @ recs ! i) @ concat (drop (Suc i) recs)))"
      by (simp add: add.commute)
    show ?thesis
      by (subst pagedLoop.simps) (simp add: at dr ih True)
  next
    case False
    then have "drop (Suc i) recs = []" by simp
    with False show ?thesis
      by (subst pagedLoop.simps) (simp add: at dr)
  qed
qed

lemma pagedLoop_error:
  "i \<le> length pre \<Longrightarrow>
   pagedLoop (pageServer (map Inr pre @ Inl err # rest))
     \<lparr> PerPage = n, Page = int i + 1 \<rparr> acc = Some (Inl err)"
proof (induction "length pre - i" arbitrary: i acc)
  case 0
  then have i: "i = length pre" by simp
  have "pageServer (map Inr pre @ Inl err # rest) \<lparr> PerPage = n, Page = int i + 1 \<rparr> =
      Inl err"
    by (simp add: pageServer_at i nth_append)
  then show ?case by (subst pagedLoop.simps) simp
next
  case (Suc d)
  then have lt: "i < length pre" by simp
  have at: "pageServer (map Inr pre @ Inl err # rest) \<lparr> PerPage = n, Page = int i + 1 \<rparr> =
      Inr (pre ! i, int i + 2)"
    using lt by (simp add: pageServer_at nth_append)
  have "d = length pre - Suc i" using Suc.hyps(2) by simp
  from Suc.hyps(1) [OF this, of "acc @ pre ! i"] lt
  have ih: "pagedLoop (pageServer (map Inr pre @ Inl err # rest))
      \<lparr> PerPage = n, Page = int i + 2 \<rparr> (acc @ pre ! i) = Some (Inl err)"
    by (simp add: add.commute)
  show ?case
    by (subst pagedLoop.simps) (simp add: at ih)
qed

lemma pageServer_first:
  "pageServer pages \<lparr> PerPage = n, Page = 0 \<rparr> = pageServer pages \<lparr> PerPage = n, Page = 1 \<rparr>"
  by (simp add: pageServer_def)

lemma pagedLoop_first:
  "pagedLoop (pageServer pages) \<lparr> PerPage = n, Page = 0 \<rparr> acc =
   pagedLoop (pageServer pages) \<lparr> PerPage = n, Page = 1 \<rparr> acc"
  by (subst pagedLoop.simps, subst (2) pagedLoop.simps)
     (simp add: pageServer_first split: sum.splits prod.splits)

lemma pagedLoop_pages:
  "pagedLoop (pageServer (map Inr recs)) \<lparr> PerPage = n, Page = 0 \<rparr> [] =
     Some (Inr (concat recs))"
proof (cases recs)
  case Nil
  have "pageServer [] \<lparr> PerPage = n, Page = 0 \<rparr> = Inr ([], 0)"
    by (simp add: pageServer_def)
  then show ?thesis
    unfolding Nil by (subst pagedLoop.simps) simp
next
  case (Cons r rs)
  then have "0 < length recs" by simp
  from pagedLoop_ok [OF this, of n "[]"] show ?thesis
    by (simp add: pagedLoop_first)
qed

text \<open>
  Claim C3. Against an upstream that serves the pages \<open>recs\<close>, the fetcher returns, and its
  result is the concatenation of the pages in page order, each page in its own order, with
  no error. Against an upstream whose pages are fine up to one that fails with \<open>err\<close>, the
  fetcher returns that error alone, whatever the pages before it held and whatever comes
  after: the result carries no records.
\<close>

theorem pagedRepoRunners_concatenates_or_fails:
  "pagedRepoRunners (pagedClient (map Inr recs)) owner name = Some (Inr (concat recs)) \<and>
   pagedRepoRunners (pagedClient (map Inr pre @ Inl err # rest)) owner name = Some (Inl err)"
proof
  show "pagedRepoRunners (pagedClient (map Inr recs)) owner name = Some (Inr (concat recs))"
    by (simp add: pagedRepoRunners_def pagedClient_def pagedLoop_pages)
  show "pagedRepoRunners (pagedClient (map Inr pre @ Inl err # rest)) owner name =
      Some (Inl err)"
    using pagedLoop_error [of 0 pre err rest 200 "[]"]
    by (simp add: pagedRepoRunners_def pagedClient_def pagedLoop_first)
qed

subsection \<open>The emission loop\<close>

lemma emitRunners_Panic:
  "(emitRunners onlineDesc busyDesc scope records w = Panic) =
     (\<exists>r \<in> set records. Busy r = None)"
  by (induction records arbitrary: w) (auto simp: Let_def split: option.splits)

lemma emitRunners_Done:
  "(emitRunners onlineDesc busyDesc scope records w = Done w') =
     ((\<forall>r \<in> set records. Busy r \<noteq> None) \<and>
      w' = w \<lparr> ch := ch w @ concat (map (runnerSamples onlineDesc busyDesc scope) records) \<rparr>)"
proof (induction records arbitrary: w)
  case Nil
  then show ?case by auto
next
  case (Cons r records)
  show ?case
  proof (cases "Busy r")
    case None
    then show ?thesis by (simp add: Let_def)
  next
    case (Some busy)
    then show ?thesis
      by (simp add: Let_def Cons.IH runnerSamples_def runnerLabels_def send_def)
  qed
qed

subsection \<open>The fetchers send nothing\<close>

lemma ch_failuresInc [simp]: "ch (failuresInc l w) = ch w"
  by (simp add: failuresInc_def)

lemma ch_logError [simp]: "ch (logError m w) = ch w"
  by (simp add: logError_def)

lemma ch_logDebug [simp]: "ch (logDebug m w) = ch w"
  by (simp add: logDebug_def)

lemma ch_durationObserve [simp]: "ch (durationObserve l w) = ch w"
  by (simp add: durationObserve_def)

lemma ch_reposLoop:
  "reposLoop glob c name repos acc = Some (Done acc') \<Longrightarrow> ch (snd acc') = ch (snd acc)"
proof (induction repos arbitrary: acc)
  case Nil
  then show ?case by simp
next
  case (Cons repo repos)
  from Cons.prems show ?case
    by (auto split: option.splits if_splits sum.splits dest!: Cons.IH)
qed

lemma ch_namesLoop:
  "namesLoop glob c names acc = Some (Done acc') \<Longrightarrow> ch (snd acc') = ch (snd acc)"
proof (induction names arbitrary: acc)
  case Nil
  then show ?case by simp
next
  case (Cons name names)
  from Cons.prems show ?case
    by (auto split: list.splits option.splits sum.splits outcome.splits
        dest!: Cons.IH ch_reposLoop)
qed

lemma ch_ownersLoop:
  "ownersLoop paged msg names acc = Some acc' \<Longrightarrow> ch (snd acc') = ch (snd acc)"
proof (induction names arbitrary: acc)
  case Nil
  then show ?case by simp
next
  case (Cons name names)
  from Cons.prems show ?case
    by (auto split: option.splits sum.splits dest!: Cons.IH)
qed

lemma ch_repoRunners:
  "repoRunners glob c cfg w = Some (Done (records, w')) \<Longrightarrow> ch w' = ch w"
  by (auto simp: repoRunners_def dest: ch_namesLoop)

lemma ch_enterpriseRunners:
  "enterpriseRunners c cfg w = Some (records, w') \<Longrightarrow> ch w' = ch w"
  by (auto simp: enterpriseRunners_def dest: ch_ownersLoop)

lemma ch_orgRunners: "orgRunners c cfg w = Some (records, w') \<Longrightarrow> ch w' = ch w"
  by (auto simp: orgRunners_def dest: ch_ownersLoop)

subsection \<open>Collect, block by block\<close>

lemma Collect_Done:
  "(RunnerCollector_Collect glob c cfg w = Some (Done w')) =
     (\<exists>repoRecords w1 w2 entRecords w3 w4 orgRecords w5.
        repoRunners glob c cfg w = Some (Done (repoRecords, w1)) \<and>
        emitRunners ''github_runner_repo_online'' ''github_runner_repo_busy'' ''TODO: repo''
          repoRecords (durationObserve ''runner'' w1) = Done w2 \<and>
        enterpriseRunners c cfg w2 = Some (entRecords, w3) \<and>
        emitRunners ''github_runner_enterprise_online'' ''github_runner_enterprise_busy''
          ''TODO: enterprise'' entRecords (durationObserve ''runner'' w3) = Done w4 \<and>
        orgRunners c cfg w4 = Some (orgRecords, w5) \<and>
        emitRunners ''github_runner_org_online'' ''github_runner_org_busy'' ''TODO: org''
          orgRecords (durationObserve ''runner'' w5) = Done w')"
  unfolding RunnerCollector_Collect_def
  by (auto split: option.splits outcome.splits prod.splits)

subsection \<open>Two concrete scrapes\<close>

lemma FormatInt_7: "FormatInt 7 = ''7''"
  by code_simp

lemma pagedOrgRunners_pages:
  "pagedOrgRunners (pagedClient (map Inr recs)) name = Some (Inr (concat recs))"
  by (simp add: pagedOrgRunners_def pagedClient_def pagedLoop_pages)

lemma orgRunners_shifted:
  "orgRunners shiftedClient orgConfig w = Some ([runner7, runner7], w)"
  using pagedOrgRunners_pages [of "[[runner7], [runner7]]" "''o''"]
  by (simp add: orgRunners_def shiftedClient_def orgConfig_def)

lemma orgRunners_nilBusy:
  "orgRunners nilBusyClient orgConfig w = Some ([runner8], w)"
  using pagedOrgRunners_pages [of "[[runner8]]" "''o''"]
  by (simp add: orgRunners_def nilBusyClient_def orgConfig_def)

lemma repoRunners_orgConfig: "repoRunners glob c orgConfig w = Some (Done ([], w))"
  by (simp add: repoRunners_def orgConfig_def)

lemma enterpriseRunners_orgConfig: "enterpriseRunners c orgConfig w = Some ([], w)"
  by (simp add: enterpriseRunners_def orgConfig_def)

lemma Collect_shifted:
  "RunnerCollector_Collect exactMatch shiftedClient orgConfig emptyState =
     Some (Done shiftedResult)"
  by (simp add: RunnerCollector_Collect_def repoRunners_orgConfig enterpriseRunners_orgConfig
      orgRunners_shifted runner7_def GetID_def GetName_def GetOS_def GetStatus_def FormatInt_7
      boolToFloat64_def send_def durationObserve_def emptyState_def shiftedResult_def Let_def)

lemma Collect_nilBusy:
  "RunnerCollector_Collect exactMatch nilBusyClient orgConfig emptyState = Some Panic"
  by (simp add: RunnerCollector_Collect_def repoRunners_orgConfig enterpriseRunners_orgConfig
      orgRunners_nilBusy runner8_def Let_def)

subsection \<open>No deduplication\<close>

text \<open>
  Claim C7, as the code has it. The runner collector keeps no set of collected keys. When
  \<open>Collect\<close> returns, the channel holds, after what it held before, the online sample and
  the busy sample of every record the repository fetch returned, then those of every
  record of the enterprise fetch, then those of every record of the organization fetch,
  in fetch order and each under the descriptors and the scope label of its block: a
  record that comes again, with the same scope and id, is sent again.
\<close>

theorem RunnerCollector_Collect_emits_every_record:
  "RunnerCollector_Collect glob c cfg w = Some (Done w') \<longrightarrow>
     (\<exists>repoRecords w1 w2 entRecords w3 w4 orgRecords w5.
        repoRunners glob c cfg w = Some (Done (repoRecords, w1)) \<and>
        enterpriseRunners c cfg w2 = Some (entRecords, w3) \<and>
        orgRunners c cfg w4 = Some (orgRecords, w5) \<and>
        (\<forall>r \<in> set (repoRecords @ entRecords @ orgRecords). Busy r \<noteq> None) \<and>
        ch w' = ch w @
          concat (map (runnerSamples ''github_runner_repo_online'' ''github_runner_repo_busy''
                         ''TODO: repo'') repoRecords) @
          concat (map (runnerSamples ''github_runner_enterprise_online''
                         ''github_runner_enterprise_busy'' ''TODO: enterprise'') entRecords) @
          concat (map (runnerSamples ''github_runner_org_online'' ''github_runner_org_busy''
                         ''TODO: org'') orgRecords))"
proof
  assume "RunnerCollector_Collect glob c cfg w = Some (Done w')"
  then obtain repoRecords w1 w2 entRecords w3 w4 orgRecords w5 where
    f1: "repoRunners glob c cfg w = Some (Done (repoRecords, w1))" and
    e1: "emitRunners ''github_runner_repo_online'' ''github_runner_repo_busy'' ''TODO: repo''
          repoRecords (durationObserve ''runner'' w1) = Done w2" and
    f2: "enterpriseRunners c cfg w2 = Some (entRecords, w3)" and
    e2: "emitRunners ''github_runner_enterprise_online'' ''github_runner_enterprise_busy''
          ''TODO: enterprise'' entRecords (durationObserve ''runner'' w3) = Done w4" and
    f3: "orgRunners c cfg w4 = Some (orgRecords, w5)" and
    e3: "emitRunners ''github_runner_org_online'' ''github_runner_org_busy'' ''TODO: org''
          orgRecords (durationObserve ''runner'' w5) = Done w'"
    unfolding Collect_Done by blast
  from e1 [unfolded emitRunners_Done] have b1: "\<forall>r \<in> set repoRecords. Busy r \<noteq> None"
    and c2: "ch w2 = ch w1 @ concat (map (runnerSamples ''github_runner_repo_online''
        ''github_runner_repo_busy'' ''TODO: repo'') repoRecords)"
    by simp_all
  from e2 [unfolded emitRunners_Done] have b2: "\<forall>r \<in> set entRecords. Busy r \<noteq> None"
    and c4: "ch w4 = ch w3 @ concat (map (runnerSamples ''github_runner_enterprise_online''
        ''github_runner_enterprise_busy'' ''TODO: enterprise'') entRecords)"
    by simp_all
  from e3 [unfolded emitRunners_Done] have b3: "\<forall>r \<in> set orgRecords. Busy r \<noteq> None"
    and c6: "ch w' = ch w5 @ concat (map (runnerSamples ''github_runner_org_online''
        ''github_runner_org_busy'' ''TODO: org'') orgRecords)"
    by simp_all
  have "ch w1 = ch w" "ch w3 = ch w2" "ch w5 = ch w4"
    using ch_repoRunners [OF f1] ch_enterpriseRunners [OF f2] ch_orgRunners [OF f3]
    by simp_all
  with c2 c4 c6 have "ch w' = ch w @
          concat (map (runnerSamples ''github_runner_repo_online'' ''github_runner_repo_busy''
                         ''TODO: repo'') repoRecords) @
          concat (map (runnerSamples ''github_runner_enterprise_online''
                         ''github_runner_enterprise_busy'' ''TODO: enterprise'') entRecords) @
          concat (map (runnerSamples ''github_runner_org_online'' ''github_runner_org_busy''
                         ''TODO: org'') orgRecords)"
    by simp
  moreover have "\<forall>r \<in> set (repoRecords @ entRecords @ orgRecords). Busy r \<noteq> None"
    using b1 b2 b3 by auto
  ultimately show "\<exists>repoRecords w1 w2 entRecords w3 w4 orgRecords w5.
        repoRunners glob c cfg w = Some (Done (repoRecords, w1)) \<and>
        enterpriseRunners c cfg w2 = Some (entRecords, w3) \<and>
        orgRunners c cfg w4 = Some (orgRecords, w5) \<and>
        (\<forall>r \<in> set (repoRecords @ entRecords @ orgRecords). Busy r \<noteq> None) \<and>
        ch w' = ch w @
          concat (map (runnerSamples ''github_runner_repo_online'' ''github_runner_repo_busy''
                         ''TODO: repo'') repoRecords) @
          concat (map (runnerSamples ''github_runner_enterprise_online''
                         ''github_runner_enterprise_busy'' ''TODO: enterprise'') entRecords) @
          concat (map (runnerSamples ''github_runner_org_online'' ''github_runner_org_busy''
                         ''TODO: org'') orgRecords)"
    using f1 f2 f3 by blast
qed

text \<open>The theorem at the scrape in which the upstream lists runner 7 on both pages.\<close>

theorem RunnerCollector_Collect_emits_every_record_witness:
  "RunnerCollector_Collect exactMatch shiftedClient orgConfig emptyState =
     Some (Done shiftedResult) \<and>
   (\<exists>repoRecords w1 w2 entRecords w3 w4 orgRecords w5.
        repoRunners exactMatch shiftedClient orgConfig emptyState =
          Some (Done (repoRecords, w1)) \<and>
        enterpriseRunners shiftedClient orgConfig w2 = Some (entRecords, w3) \<and>
        orgRunners shiftedClient orgConfig w4 = Some (orgRecords, w5) \<and>
        (\<forall>r \<in> set (repoRecords @ entRecords @ orgRecords). Busy r \<noteq> None) \<and>
        ch shiftedResult = ch emptyState @
          concat (map (runnerSamples ''github_runner_repo_online'' ''github_runner_repo_busy''
                         ''TODO: repo'') repoRecords) @
          concat (map (runnerSamples ''github_runner_enterprise_online''
                         ''github_runner_enterprise_busy'' ''TODO: enterprise'') entRecords) @
          concat (map (runnerSamples ''github_runner_org_online'' ''github_runner_org_busy''
                         ''TODO: org'') orgRecords))"
proof -
  have run: "RunnerCollector_Collect exactMatch shiftedClient orgConfig emptyState =
      Some (Done shiftedResult)"
    by (rule Collect_shifted)
  with RunnerCollector_Collect_emits_every_record
    [of exactMatch shiftedClient orgConfig emptyState shiftedResult]
  show ?thesis by blast
qed

text \<open>
  Claim C7 as it is worded, at most one sample per family and key within one \<open>Collect\<close>,
  fails when the upstream lists runner 7 of organization "o" on the first page and again
  on the second: one \<open>Collect\<close> sends the online sample with the labels of runner 7 twice
  and the busy sample twice.
\<close>

theorem RunnerCollector_Collect_duplicate_counterexample:
  "RunnerCollector_Collect exactMatch shiftedClient orgConfig emptyState =
     Some (Done (emptyState
       \<lparr> ch := [MustNewConstMetric ''github_runner_org_online'' 1
                  [''TODO: org'', ''7'', ''runner-7'', ''linux'', ''online''],
                MustNewConstMetric ''github_runner_org_busy'' 0
                  [''TODO: org'', ''7'', ''runner-7'', ''linux'', ''online''],
                MustNewConstMetric ''github_runner_org_online'' 1
                  [''TODO: org'', ''7'', ''runner-7'', ''linux'', ''online''],
                MustNewConstMetric ''github_runner_org_busy'' 0
                  [''TODO: org'', ''7'', ''runner-7'', ''linux'', ''online'']],
         duration := [''runner'', ''runner'', ''runner''] \<rparr>))"
  using Collect_shifted by (simp add: shiftedResult_def)

subsection \<open>A record without a busy flag\<close>

text \<open>
  Claim C9. There is a scrape, the one in which the upstream reports runner 8 without a
  busy field, in which \<open>Collect\<close> panics. In general, in whichever of the three blocks the
  fetched records hold one without a busy flag, \<open>Collect\<close> panics in that block; and when
  \<open>Collect\<close> returns, every record the three fetches returned has a busy flag.
\<close>

theorem RunnerCollector_Collect_panics_on_nil_busy:
  "(RunnerCollector_Collect exactMatch nilBusyClient orgConfig emptyState = Some Panic)
   \<and> (\<forall>records w1.
        repoRunners glob c cfg w = Some (Done (records, w1)) \<and>
        (\<exists>r \<in> set records. Busy r = None) \<longrightarrow>
        RunnerCollector_Collect glob c cfg w = Some Panic)
   \<and> (\<forall>repoRecords w1 w2 records w3.
        repoRunners glob c cfg w = Some (Done (repoRecords, w1)) \<and>
        emitRunners ''github_runner_repo_online'' ''github_runner_repo_busy'' ''TODO: repo''
          repoRecords (durationObserve ''runner'' w1) = Done w2 \<and>
        enterpriseRunners c cfg w2 = Some (records, w3) \<and>
        (\<exists>r \<in> set records. Busy r = None) \<longrightarrow>
        RunnerCollector_Collect glob c cfg w = Some Panic)
   \<and> (\<forall>repoRecords w1 w2 entRecords w3 w4 records w5.
        repoRunners glob c cfg w = Some (Done (repoRecords, w1)) \<and>
        emitRunners ''github_runner_repo_online'' ''github_runner_repo_busy'' ''TODO: repo''
          repoRecords (durationObserve ''runner'' w1) = Done w2 \<and>
        enterpriseRunners c cfg w2 = Some (entRecords, w3) \<and>
        emitRunners ''github_runner_enterprise_online'' ''github_runner_enterprise_busy''
          ''TODO: enterprise'' entRecords (durationObserve ''runner'' w3) = Done w4 \<and>
        orgRunners c cfg w4 = Some (records, w5) \<and>
        (\<exists>r \<in> set records. Busy r = None) \<longrightarrow>
        RunnerCollector_Collect glob c cfg w = Some Panic)
   \<and> (\<forall>w'. RunnerCollector_Collect glob c cfg w = Some (Done w') \<longrightarrow>
        (\<exists>repoRecords w1 w2 entRecords w3 w4 orgRecords w5.
           repoRunners glob c cfg w = Some (Done (repoRecords, w1)) \<and>
           enterpriseRunners c cfg w2 = Some (entRecords, w3) \<and>
           orgRunners c cfg w4 = Some (orgRecords, w5) \<and>
           (\<forall>r \<in> set (repoRecords @ entRecords @ orgRecords). Busy r \<noteq> None)))"
proof (intro conjI allI impI)
  show "RunnerCollector_Collect exactMatch nilBusyClient orgConfig emptyState = Some Panic"
    by (rule Collect_nilBusy)
next
  fix records w1
  assume "repoRunners glob c cfg w = Some (Done (records, w1)) \<and>
        (\<exists>r \<in> set records. Busy r = None)"
  then show "RunnerCollector_Collect glob c cfg w = Some Panic"
    using emitRunners_Panic [of "''github_runner_repo_online''" "''github_runner_repo_busy''"
        "''TODO: repo''" records "durationObserve ''runner'' w1"]
    by (simp add: RunnerCollector_Collect_def)
next
  fix repoRecords w1 w2 records w3
  assume "repoRunners glob c cfg w = Some (Done (repoRecords, w1)) \<and>
        emitRunners ''github_runner_repo_online'' ''github_runner_repo_busy'' ''TODO: repo''
          repoRecords (durationObserve ''runner'' w1) = Done w2 \<and>
        enterpriseRunners c cfg w2 = Some (records, w3) \<and>
        (\<exists>r \<in> set records. Busy r = None)"
  then show "RunnerCollector_Collect glob c cfg w = Some Panic"
    using emitRunners_Panic [of "''github_runner_enterprise_online''"
        "''github_runner_enterprise_busy''" "''TODO: enterprise''" records
        "durationObserve ''runner'' w3"]
    by (simp add: RunnerCollector_Collect_def)
next
  fix repoRecords w1 w2 entRecords w3 w4 records w5
  assume "repoRunners glob c cfg w = Some (Done (repoRecords, w1)) \<and>
        emitRunners ''github_runner_repo_online'' ''github_runner_repo_busy'' ''TODO: repo''
          repoRecords (durationObserve ''runner'' w1) = Done w2 \<and>
        enterpriseRunners c cfg w2 = Some (entRecords, w3) \<and>
        emitRunners ''github_runner_enterprise_online'' ''github_runner_enterprise_busy''
          ''TODO: enterprise'' entRecords (durationObserve ''runner'' w3) = Done w4 \<and>
        orgRunners c cfg w4 = Some (records, w5) \<and>
        (\<exists>r \<in> set records. Busy r = None)"
  then show "RunnerCollector_Collect glob c cfg w = Some Panic"
    using emitRunners_Panic [of "''github_runner_org_online''" "''github_runner_org_busy''"
        "''TODO: org''" records "durationObserve ''runner'' w5"]
    by (simp add: RunnerCollector_Collect_def)
next
  fix w'
  assume "RunnerCollector_Collect glob c cfg w = Some (Done w')"
  then obtain repoRecords w1 w2 entRecords w3 w4 orgRecords w5 where
    f1: "repoRunners glob c cfg w = Some (Done (repoRecords, w1))" and
    e1: "emitRunners ''github_runner_repo_online'' ''github_runner_repo_busy'' ''TODO: repo''
          repoRecords (durationObserve ''runner'' w1) = Done w2" and
    f2: "enterpriseRunners c cfg w2 = Some (entRecords, w3)" and
    e2: "emitRunners ''github_runner_enterprise_online'' ''github_runner_enterprise_busy''
          ''TODO: enterprise'' entRecords (durationObserve ''runner'' w3) = Done w4" and
    f3: "orgRunners c cfg w4 = Some (orgRecords, w5)" and
    e3: "emitRunners ''github_runner_org_online'' ''github_runner_org_busy'' ''TODO: org''
          orgRecords (durationObserve ''runner'' w5) = Done w'"
    unfolding Collect_Done by blast
  have "\<forall>r \<in> set (repoRecords @ entRecords @ orgRecords). Busy r \<noteq> None"
    using e1 [unfolded emitRunners_Done] e2 [unfolded emitRunners_Done]
      e3 [unfolded emitRunners_Done] by auto
  with f1 f2 f3 show "\<exists>repoRecords w1 w2 entRecords w3 w4 orgRecords w5.
           repoRunners glob c cfg w = Some (Done (repoRecords, w1)) \<and>
           enterpriseRunners c cfg w2 = Some (entRecords, w3) \<and>
           orgRunners c cfg w4 = Some (orgRecords, w5) \<and>
           (\<forall>r \<in> set (repoRecords @ entRecords @ orgRecords). Busy r \<noteq> None)"
    by blast
qed

text \<open>The theorem at the scrape with runner 8: the organization fetch returns it, it has
  no busy flag, and \<open>Collect\<close> panics in the third block.\<close>

theorem RunnerCollector_Collect_panics_on_nil_busy_witness:
  "Busy runner8 = None \<and>
   orgRunners nilBusyClient orgConfig
       (durationObserve ''runner'' (durationObserve ''runner'' emptyState)) =
     Some ([runner8], durationObserve ''runner'' (durationObserve ''runner'' emptyState)) \<and>
   RunnerCollector_Collect exactMatch nilBusyClient orgConfig emptyState = Some Panic"
proof -
  let ?w1 = "durationObserve ''runner'' emptyState"
  let ?w2 = "durationObserve ''runner'' ?w1"
  have b: "Busy runner8 = None" by (simp add: runner8_def)
  have chain:
    "repoRunners exactMatch nilBusyClient orgConfig emptyState = Some (Done ([], emptyState)) \<and>
     emitRunners ''github_runner_repo_online'' ''github_runner_repo_busy'' ''TODO: repo''
       [] (durationObserve ''runner'' emptyState) = Done ?w1 \<and>
     enterpriseRunners nilBusyClient orgConfig ?w1 = Some ([], ?w1) \<and>
     emitRunners ''github_runner_enterprise_online'' ''github_runner_enterprise_busy''
       ''TODO: enterprise'' [] (durationObserve ''runner'' ?w1) = Done ?w2 \<and>
     orgRunners nilBusyClient orgConfig ?w2 = Some ([runner8], ?w2) \<and>
     (\<exists>r \<in> set [runner8]. Busy r = None)"
    by (simp add: repoRunners_orgConfig enterpriseRunners_orgConfig orgRunners_nilBusy b)
  have "RunnerCollector_Collect exactMatch nilBusyClient orgConfig emptyState = Some Panic"
    using RunnerCollector_Collect_panics_on_nil_busy
      [of exactMatch nilBusyClient orgConfig emptyState] chain
    by blast
  with b orgRunners_nilBusy show ?thesis by simp
qed

subsection \<open>The repositories a pattern retains\<close>









end
